theory Spec2Isabelle
  imports Main
begin

section \<open>Runtime validator: \<open>src/runtime/ensure-trusted-url.ts\<close>\<close>

subsection \<open>Values, options and errors\<close>

text \<open>
  The JavaScript values the validator can be handed. The TypeScript signature asks for a
  string, the tests also pass \<open>null\<close>, \<open>undefined\<close>, numbers and arrays. An object is its
  list of own properties (an array is an object too). A string is the sequence of its
  characters: an ASCII character is itself, and any other character is written as
  characters outside ASCII (as in UTF-8).
\<close>

datatype js_value =
    JsUndefined
  | JsNull
  | JsBoolean bool
  | JsNumber int
  | JsString string
  | JsObject "(string \<times> js_value) list"

fun typeof :: "js_value \<Rightarrow> string" where
  "typeof JsUndefined = ''undefined''"
| "typeof JsNull = ''object''"
| "typeof (JsBoolean b) = ''boolean''"
| "typeof (JsNumber n) = ''number''"
| "typeof (JsString s) = ''string''"
| "typeof (JsObject props) = ''object''"

fun truthy :: "js_value \<Rightarrow> bool" where
  "truthy JsUndefined = False"
| "truthy JsNull = False"
| "truthy (JsBoolean b) = b"
| "truthy (JsNumber n) = (n \<noteq> 0)"
| "truthy (JsString s) = (s \<noteq> [])"
| "truthy (JsObject props) = True"

text \<open>\<open>EnsureTrustedUrlOptions\<close>: every field is optional, \<open>None\<close> is an absent field.\<close>

record EnsureTrustedUrlOptions =
  allowCrossOrigin :: "bool option"
  allowedProtocols :: "string list option"
  allowedOrigins :: "string list option"

text \<open>The two fields of a parsed \<open>URL\<close> object that the validator reads.\<close>

record URL =
  protocol :: string
  origin :: string

text \<open>
  What the validator reads from its surroundings: the global binding \<open>window\<close>
  (\<open>None\<close> when no such global exists, so that evaluating the identifier throws a
  \<open>ReferenceError\<close>), the platform's constructor \<open>new URL(url, base)\<close>, which
  answers \<open>None\<close> where it throws, and the platform's \<open>String.prototype.toLowerCase\<close>,
  whose result may be longer than its argument.
\<close>

record runtime =
  window :: "js_value option"
  newURL :: "string \<Rightarrow> string option \<Rightarrow> URL option"
  toLowerCase :: "string \<Rightarrow> string"

text \<open>One constructor for each place where the function can throw.\<close>

datatype url_error =
    ReferenceError
  | MustBeNonEmptyString
  | InvalidURL string
  | UnsafeURLProtocol string
  | CrossOriginNotAllowed string
  | DangerousProtocolDetected string

subsection \<open>String helpers\<close>

text \<open>
  The characters that the pattern \<open>[^a-z:]\<close> does not match. Every character outside
  ASCII is matched, and so removed by \<open>replace(/[^a-z:]/g, "")\<close>.
\<close>

definition lowerOrColon :: "char \<Rightarrow> bool" where
  "lowerOrColon c = (c \<in> set ''abcdefghijklmnopqrstuvwxyz:'')"

definition startsWith :: "string \<Rightarrow> string \<Rightarrow> bool" where
  "startsWith s p = (take (length p) s = p)"

subsection \<open>\<open>ensureTrustedUrl\<close> and \<open>isTrustedUrl\<close>\<close>

definition currentOriginOf :: "js_value \<Rightarrow> string option" where
  "currentOriginOf win =
     (case win of
        JsObject props \<Rightarrow>
          (case map_of props ''location'' of
             Some (JsObject locationProps) \<Rightarrow>
               (case map_of locationProps ''origin'' of
                  Some (JsString s) \<Rightarrow> Some s
                | _ \<Rightarrow> None)
           | _ \<Rightarrow> None)
      | _ \<Rightarrow> None)"

definition defaultAllowedOrigins :: "string option \<Rightarrow> string list" where
  "defaultAllowedOrigins currentOrigin =
     (case currentOrigin of
        Some s \<Rightarrow> (if s \<noteq> [] then [s] else [])
      | None \<Rightarrow> [])"

definition normalizedUrl :: "runtime \<Rightarrow> string \<Rightarrow> string" where
  "normalizedUrl env url = filter lowerOrColon (toLowerCase env url)"

definition ensureTrustedUrl ::
  "runtime \<Rightarrow> js_value \<Rightarrow> EnsureTrustedUrlOptions \<Rightarrow> url_error + string" where
  "ensureTrustedUrl env url options =
     (case window env of
        None \<Rightarrow> Inl ReferenceError
      | Some win \<Rightarrow>
          (let currentOrigin = currentOriginOf win;
               allowCrossOrigin' =
                 (case allowCrossOrigin options of None \<Rightarrow> False | Some b \<Rightarrow> b);
               allowedProtocols' =
                 (case allowedProtocols options of
                    None \<Rightarrow> [''http:'', ''https:'']
                  | Some ps \<Rightarrow> ps);
               allowedOrigins' =
                 (case allowedOrigins options of
                    None \<Rightarrow> defaultAllowedOrigins currentOrigin
                  | Some os \<Rightarrow> os)
           in if \<not> truthy url \<or> typeof url \<noteq> ''string'' then Inl MustBeNonEmptyString
              else
                (case url of
                   JsString s \<Rightarrow>
                     (case newURL env s currentOrigin of
                        None \<Rightarrow> Inl (InvalidURL s)
                      | Some parsedUrl \<Rightarrow>
                          if protocol parsedUrl \<notin> set allowedProtocols'
                          then Inl (UnsafeURLProtocol (protocol parsedUrl))
                          else
                            (let isAllowedOrigin =
                                   origin parsedUrl \<in> set allowedOrigins'
                             in if \<not> isAllowedOrigin \<and> \<not> allowCrossOrigin'
                                then Inl (CrossOriginNotAllowed (origin parsedUrl))
                                else if startsWith (normalizedUrl env s) ''javascript:''
                                then Inl (DangerousProtocolDetected s)
                                else Inr s))
                 | _ \<Rightarrow> Inl MustBeNonEmptyString)))"

definition isTrustedUrl :: "runtime \<Rightarrow> js_value \<Rightarrow> EnsureTrustedUrlOptions \<Rightarrow> bool" where
  "isTrustedUrl env url options =
     (case ensureTrustedUrl env url options of Inl e \<Rightarrow> False | Inr v \<Rightarrow> True)"

section \<open>Static rule: \<open>src/utils/index.ts\<close> and the rule \<open>no-unsafe-redirect\<close>\<close>

subsection \<open>Syntax trees\<close>

text \<open>
  The node kinds the rule inspects, with the fields it reads. A template literal is its
  list of raw quasis and its list of interpolated expressions; a member expression is
  its object, its property and the flag \<open>computed\<close>. Every other kind of node is an
  \<open>OtherNode\<close>.
\<close>

datatype literal_value =
    StringValue string
  | NumberValue int
  | BooleanValue bool
  | NullValue
  | RegExpValue string
  | BigIntValue int

datatype node =
    Identifier string
  | PrivateIdentifier string
  | Literal literal_value
  | TemplateLiteral "string list" "node list"
  | BinaryExpression string node node
  | MemberExpression node node bool
  | CallExpression node "node list"
  | ChainExpression node
  | OtherNode nat

subsection \<open>The host's scope analysis and type checker\<close>

text \<open>
  A scope as the scope manager hands it out: the variables declared in this very scope
  (the source's \<open>scope.set\<close>, a map from names to variables, each with its list of
  definitions) and the enclosing scope \<open>scope.upper\<close>.
\<close>

datatype definition_type =
    ParameterDefinition
  | VariableDefinition
  | FunctionNameDefinition
  | ClassNameDefinition
  | ImportBindingDefinition
  | CatchClauseDefinition

datatype variable = Variable (defs: "definition_type list")

datatype scope = Scope (variables: "(string \<times> variable) list") (upper: "scope option")

text \<open>
  A type of the type checker, with what the rule asks of it: the name of its symbol
  (\<open>None\<close> when it has none), whether it is a string literal type (and then its value),
  a union or an intersection (and then its constituent \<open>types\<close>), its properties with
  their types, and the string \<open>checker.typeToString\<close> prints for it.
\<close>

datatype ts_kind =
    PlainType
  | StringLiteralType string
  | UnionType
  | IntersectionType

datatype ts_type =
  TsType (symbolName: "string option") (kind: ts_kind) (types: "ts_type list")
    (properties: "(string \<times> ts_type) list") (display: string)

text \<open>
  What \<open>create(context)\<close> obtains from the host. \<open>checker\<close> is \<open>None\<close> when the parser
  services or the type checker could not be obtained; otherwise it maps a node to its
  type, \<open>None\<close> where the lookup throws. \<open>getScope\<close> is \<open>sourceCode.getScope\<close>: the
  innermost scope around a node. Both are keyed by the node.
\<close>

record rule_context =
  checker :: "(node \<Rightarrow> ts_type option) option"
  getScope :: "node \<Rightarrow> scope"

subsection \<open>\<open>src/utils/index.ts\<close>\<close>

definition isSafeLiteral :: "node \<Rightarrow> bool" where
  "isSafeLiteral n =
     (case n of
        Literal (StringValue s) \<Rightarrow> True
      | TemplateLiteral quasis expressions \<Rightarrow> length expressions = 0
      | _ \<Rightarrow> False)"

definition isGlobalIdentifier :: "rule_context \<Rightarrow> node \<Rightarrow> bool" where
  "isGlobalIdentifier ctx n =
     (case n of
        Identifier name \<Rightarrow>
          (case map_of (variables (getScope ctx n)) name of
             None \<Rightarrow> True
           | Some v \<Rightarrow> length (defs v) = 0)
      | _ \<Rightarrow> True)"

fun getBaseObject :: "node \<Rightarrow> node" where
  "getBaseObject (MemberExpression object property computed) = getBaseObject object"
| "getBaseObject n = n"

text \<open>The declared result type of \<open>getRedirectSinkType\<close>, \<open>null\<close> being \<open>None\<close>.\<close>

datatype sink_type = SinkHref | SinkReplace | SinkAssign | SinkNavigate | SinkLocation

definition getRedirectSinkType :: "node \<Rightarrow> sink_type option" where
  "getRedirectSinkType n =
     (case n of
        MemberExpression object property computed \<Rightarrow>
          (case property of
             Identifier name \<Rightarrow>
               (if name = ''href'' then Some SinkHref
                else if name = ''replace'' then Some SinkReplace
                else if name = ''assign'' then Some SinkAssign
                else if name = ''navigate'' then Some SinkNavigate
                else None)
           | _ \<Rightarrow> None)
      | _ \<Rightarrow> None)"

datatype open_call_info = GlobalOpen node | MethodOpen node

text \<open>\<open>getOpenCallInfo\<close>, applied to the callee of the call expression.\<close>

definition getOpenCallInfo :: "node \<Rightarrow> open_call_info option" where
  "getOpenCallInfo callee =
     (case callee of
        Identifier name \<Rightarrow> (if name = ''open'' then Some (GlobalOpen callee) else None)
      | MemberExpression object property computed \<Rightarrow>
          (if property = Identifier ''open'' then Some (MethodOpen object) else None)
      | _ \<Rightarrow> None)"

subsection \<open>The rule's helpers\<close>

datatype redirect_object = LocationObject | NavigationObject | WindowObject

record VariableInfo =
  varNode :: node
  isLocation :: bool
  isNavigation :: bool
  isWindow :: bool

text \<open>
  The state of one pass over a file: the alias map, the stack of \<open>with\<close> headers, and
  the nodes reported so far (each report carries the one message \<open>unsafeRedirect\<close>).
\<close>

record rule_state =
  trackedVariables :: "string \<rightharpoonup> VariableInfo"
  withStack :: "redirect_object option list"
  reports :: "node list"

definition getType :: "rule_context \<Rightarrow> node \<Rightarrow> ts_type option" where
  "getType ctx n = (case checker ctx of None \<Rightarrow> None | Some typeAtLocation \<Rightarrow> typeAtLocation n)"

fun hasTypeName :: "ts_type \<Rightarrow> string \<Rightarrow> bool" where
  "hasTypeName (TsType sname k ts props shown) typeName =
     (if sname = Some typeName then True
      else if k = UnionType then list_ex (\<lambda>t. hasTypeName t typeName) ts
      else if k = IntersectionType then list_ex (\<lambda>t. hasTypeName t typeName) ts
      else False)"

definition isTrustedUrlType :: "ts_type \<Rightarrow> bool" where
  "isTrustedUrlType t =
     (case find (\<lambda>prop. fst prop = ''__brand'') (properties t) of
        None \<Rightarrow> False
      | Some brandProp \<Rightarrow>
          (case kind (snd brandProp) of
             StringLiteralType v \<Rightarrow> v = ''TrustedUrl''
           | _ \<Rightarrow> False))"

text \<open>
  The test \<open>/^[/\\]+$/.test(s)\<close>: one or more characters, each a slash or a backslash.
\<close>

definition slashesOnly :: "string \<Rightarrow> bool" where
  "slashesOnly s = (s \<noteq> [] \<and> list_all (\<lambda>c. c = CHR ''/'' \<or> c = CHR 0x5C) s)"

text \<open>The loop of \<open>isValueSafe\<close> that walks down the left operands of \<open>+\<close>.\<close>

fun leftmostOperand :: "node \<Rightarrow> node" where
  "leftmostOperand (BinaryExpression operator left right) =
     (if operator = ''+'' then leftmostOperand left else BinaryExpression operator left right)"
| "leftmostOperand n = n"

text \<open>The end of \<open>isValueSafe\<close>: the type of the node, then the name of a called function.\<close>

definition safeByTypeOrCall :: "rule_context \<Rightarrow> node \<Rightarrow> bool" where
  "safeByTypeOrCall ctx n =
     (if (case getType ctx n of
            None \<Rightarrow> False
          | Some t \<Rightarrow> isTrustedUrlType t \<or> (case kind t of StringLiteralType v \<Rightarrow> True | _ \<Rightarrow> False))
      then True
      else
        (case n of
           CallExpression callee arguments \<Rightarrow> callee = Identifier ''ensureTrustedUrl''
         | _ \<Rightarrow> False))"

definition isValueSafe :: "rule_context \<Rightarrow> node \<Rightarrow> bool" where
  "isValueSafe ctx n =
     (if isSafeLiteral n then True
      else
        (case n of
           TemplateLiteral quasis expressions \<Rightarrow>
             (if length expressions > 0
              then
                (case quasis of
                   [] \<Rightarrow> False
                 | firstQuasi # rest \<Rightarrow>
                     (if length firstQuasi > 0
                      then (if slashesOnly firstQuasi then False else True)
                      else False))
              else safeByTypeOrCall ctx n)
         | BinaryExpression operator left right \<Rightarrow>
             (if operator = ''+''
              then
                (case leftmostOperand left of
                   Literal (StringValue v) \<Rightarrow> (if slashesOnly v then False else True)
                 | TemplateLiteral quasis expressions \<Rightarrow>
                     (case quasis of
                        [v] \<Rightarrow>
                          (if v \<noteq> [] \<and> length v > 0
                           then (if slashesOnly v then False else True)
                           else False)
                      | _ \<Rightarrow> False)
                 | _ \<Rightarrow> False)
              else safeByTypeOrCall ctx n)
         | _ \<Rightarrow> safeByTypeOrCall ctx n))"

text \<open>The first step of \<open>isRedirectObject\<close>: the kind the node's type names, if any.\<close>

definition redirectObjectOfType :: "rule_context \<Rightarrow> node \<Rightarrow> redirect_object option" where
  "redirectObjectOfType ctx n =
     (case getType ctx n of
        None \<Rightarrow> None
      | Some t \<Rightarrow>
          (if hasTypeName t ''Location'' then Some LocationObject
           else if hasTypeName t ''Window'' then Some WindowObject
           else if hasTypeName t ''typeof globalThis'' then Some WindowObject
           else if hasTypeName t ''Document'' then Some WindowObject
           else None))"

text \<open>
  The last step of the member branch of \<open>isRedirectObject\<close>, given the kind of the object.
\<close>

definition propertyOfObjectType :: "redirect_object option \<Rightarrow> node \<Rightarrow> redirect_object option" where
  "propertyOfObjectType objectType property =
     (if objectType = Some WindowObject
      then
        (case property of
           Identifier name \<Rightarrow>
             (if name = ''location'' then Some LocationObject
              else if name = ''navigation'' then Some NavigationObject
              else None)
         | _ \<Rightarrow> None)
      else None)"

fun isRedirectObject ::
  "rule_context \<Rightarrow> (string \<rightharpoonup> VariableInfo) \<Rightarrow> node \<Rightarrow> redirect_object option" where
  "isRedirectObject ctx tracked (Identifier name) =
     (case redirectObjectOfType ctx (Identifier name) of
        Some k \<Rightarrow> Some k
      | None \<Rightarrow>
          (case (case tracked name of
                   None \<Rightarrow> None
                 | Some varInfo \<Rightarrow>
                     (if isLocation varInfo then Some LocationObject
                      else if isNavigation varInfo then Some NavigationObject
                      else if isWindow varInfo then Some WindowObject
                      else None)) of
             Some k \<Rightarrow> Some k
           | None \<Rightarrow>
               (if isGlobalIdentifier ctx (Identifier name)
                then
                  (if name = ''location'' then Some LocationObject
                   else if name = ''window'' then Some WindowObject
                   else if name = ''navigation'' then Some NavigationObject
                   else None)
                else None)))"
| "isRedirectObject ctx tracked (MemberExpression object property computed) =
     (case redirectObjectOfType ctx (MemberExpression object property computed) of
        Some k \<Rightarrow> Some k
      | None \<Rightarrow>
          (case object of
             Identifier objectName \<Rightarrow>
               (case property of
                  Identifier propertyName \<Rightarrow>
                    (let isGlobal = isGlobalIdentifier ctx object
                     in if propertyName = ''location'' \<and> isGlobal \<and>
                           (objectName = ''window'' \<or> objectName = ''document'' \<or>
                            objectName = ''globalThis'')
                        then Some LocationObject
                        else if objectName = ''window'' \<and> propertyName = ''navigation'' \<and> isGlobal
                        then Some NavigationObject
                        else propertyOfObjectType (isRedirectObject ctx tracked object) property)
                | _ \<Rightarrow> propertyOfObjectType (isRedirectObject ctx tracked object) property)
           | _ \<Rightarrow> propertyOfObjectType (isRedirectObject ctx tracked object) property))"
| "isRedirectObject ctx tracked n = redirectObjectOfType ctx n"

text \<open>The test \<open>n.type === AST_NODE_TYPES.Identifier\<close>.\<close>

definition isIdentifier :: "node \<Rightarrow> bool" where
  "isIdentifier n = (case n of Identifier name \<Rightarrow> True | _ \<Rightarrow> False)"

definition reportUnsafeRedirect :: "rule_state \<Rightarrow> node \<Rightarrow> rule_state" where
  "reportUnsafeRedirect st n = st\<lparr>reports := reports st @ [n]\<rparr>"

definition getCurrentWithObject :: "rule_state \<Rightarrow> redirect_object option" where
  "getCurrentWithObject st = (if length (withStack st) > 0 then last (withStack st) else None)"

definition unwrapChainExpression :: "node \<Rightarrow> node" where
  "unwrapChainExpression n = (case n of ChainExpression expression \<Rightarrow> expression | _ \<Rightarrow> n)"

text \<open>\<open>typeName?.includes(sub)\<close>: \<open>sub\<close> occurs somewhere in the string.\<close>

fun stringIncludes :: "string \<Rightarrow> string \<Rightarrow> bool" where
  "stringIncludes [] sub = (sub = [])"
| "stringIncludes (c # cs) sub = (startsWith (c # cs) sub \<or> stringIncludes cs sub)"

text \<open>The recurring step \<open>if (!isValueSafe(v)) reportUnsafeRedirect(v)\<close>.\<close>

definition reportIfUnsafe :: "rule_context \<Rightarrow> rule_state \<Rightarrow> node \<Rightarrow> rule_state" where
  "reportIfUnsafe ctx st v = (if \<not> isValueSafe ctx v then reportUnsafeRedirect st v else st)"

text \<open>
  The recurring step on the first argument of a call:
  \<open>if (urlArg && !isValueSafe(urlArg)) reportUnsafeRedirect(urlArg)\<close>.
\<close>

definition reportFirstArgument :: "rule_context \<Rightarrow> rule_state \<Rightarrow> node list \<Rightarrow> rule_state" where
  "reportFirstArgument ctx st args =
     (case args of [] \<Rightarrow> st | urlArg # rest \<Rightarrow> reportIfUnsafe ctx st urlArg)"

subsection \<open>The visitor\<close>

definition enterWithStatement :: "rule_context \<Rightarrow> rule_state \<Rightarrow> node \<Rightarrow> rule_state" where
  "enterWithStatement ctx st object =
     st\<lparr>withStack := withStack st @ [isRedirectObject ctx (trackedVariables st) object]\<rparr>"

definition exitWithStatement :: "rule_state \<Rightarrow> rule_state" where
  "exitWithStatement st = st\<lparr>withStack := butlast (withStack st)\<rparr>"

text \<open>\<open>VariableDeclarator\<close>: the declared \<open>id\<close> and the initialiser, if there is one.\<close>

definition visitVariableDeclarator ::
  "rule_context \<Rightarrow> rule_state \<Rightarrow> node \<Rightarrow> node option \<Rightarrow> rule_state" where
  "visitVariableDeclarator ctx st ident init =
     (case ident of
        Identifier name \<Rightarrow>
          (case init of
             None \<Rightarrow> st
           | Some initNode \<Rightarrow>
               (case isRedirectObject ctx (trackedVariables st) initNode of
                  None \<Rightarrow> st
                | Some objectType \<Rightarrow>
                    st\<lparr>trackedVariables := (trackedVariables st)(name \<mapsto>
                         \<lparr>varNode = ident,
                          isLocation = (objectType = LocationObject),
                          isNavigation = (objectType = NavigationObject),
                          isWindow = (objectType = WindowObject)\<rparr>)\<rparr>))
      | _ \<Rightarrow> st)"

text \<open>
  \<open>AssignmentExpression\<close>, first half: the target, with an optional chain unwrapped, is a
  member expression. The flag of the result says that the handler has returned.
\<close>

definition assignToMember ::
  "rule_context \<Rightarrow> rule_state \<Rightarrow> node \<Rightarrow> node \<Rightarrow> rule_state \<times> bool" where
  "assignToMember ctx st unwrappedLeft right =
     (case unwrappedLeft of
        MemberExpression object property computed \<Rightarrow>
          (let sinkType = getRedirectSinkType unwrappedLeft;
               objectType = isRedirectObject ctx (trackedVariables st) object
           in if sinkType \<noteq> None \<and> isIdentifier property \<and>
                 objectType = Some LocationObject
              then (reportIfUnsafe ctx st right, True)
              else if property = Identifier ''location'' \<and> objectType = Some WindowObject
              then (reportIfUnsafe ctx st right, True)
              else
                (let st1 =
                       (if property = Identifier ''location'' \<and>
                           (object = Identifier ''document'' \<or> object = Identifier ''globalThis'') \<and>
                           isGlobalIdentifier ctx object
                        then reportIfUnsafe ctx st right
                        else st);
                     st2 =
                       (if computed \<and> objectType = Some LocationObject
                        then reportIfUnsafe ctx st1 right
                        else st1)
                 in (st2, False)))
      | _ \<Rightarrow> (st, False))"

text \<open>\<open>AssignmentExpression\<close>, second half: the target is a bare identifier.\<close>

definition assignToIdentifier ::
  "rule_context \<Rightarrow> rule_state \<Rightarrow> node \<Rightarrow> node \<Rightarrow> rule_state" where
  "assignToIdentifier ctx st left right =
     (case left of
        Identifier name \<Rightarrow>
          (if isRedirectObject ctx (trackedVariables st) left = Some LocationObject
           then reportIfUnsafe ctx st right
           else
             (case getCurrentWithObject st of
                None \<Rightarrow> st
              | Some withinObject \<Rightarrow>
                  (if (case getType ctx left of
                         None \<Rightarrow> False
                       | Some leftType \<Rightarrow>
                           display leftType = ''string'' \<or> stringIncludes (display leftType) ''Location'') \<and>
                      name = ''href'' \<and> \<not> isValueSafe ctx right
                   then reportUnsafeRedirect st right
                   else if withinObject = LocationObject \<and> name = ''href''
                   then reportIfUnsafe ctx st right
                   else st)))
      | _ \<Rightarrow> st)"

definition visitAssignmentExpression ::
  "rule_context \<Rightarrow> rule_state \<Rightarrow> node \<Rightarrow> node \<Rightarrow> rule_state" where
  "visitAssignmentExpression ctx st left right =
     (case assignToMember ctx st (unwrapChainExpression left) right of
        (st', returned) \<Rightarrow> (if returned then st' else assignToIdentifier ctx st' left right))"

definition visitCallExpression ::
  "rule_context \<Rightarrow> rule_state \<Rightarrow> node \<Rightarrow> node list \<Rightarrow> rule_state" where
  "visitCallExpression ctx st callee args =
     (case getOpenCallInfo callee of
        Some openInfo \<Rightarrow>
          (let isValidOpen =
                 (case openInfo of
                    GlobalOpen identifier \<Rightarrow> isGlobalIdentifier ctx identifier
                  | MethodOpen object \<Rightarrow>
                      isRedirectObject ctx (trackedVariables st) object = Some WindowObject)
           in if isValidOpen then reportFirstArgument ctx st args else st)
      | None \<Rightarrow>
          (let unwrappedCallee = unwrapChainExpression callee;
               st1 =
                 (case unwrappedCallee of
                    MemberExpression object property computed \<Rightarrow>
                      (let sinkType = getRedirectSinkType unwrappedCallee;
                           objectType = isRedirectObject ctx (trackedVariables st) object;
                           st' =
                             (if (sinkType = Some SinkReplace \<or> sinkType = Some SinkAssign) \<and>
                                 objectType = Some LocationObject
                              then reportFirstArgument ctx st args
                              else st)
                       in if sinkType = Some SinkNavigate \<and> objectType = Some NavigationObject
                          then reportFirstArgument ctx st' args
                          else st')
                  | _ \<Rightarrow> st)
           in (case callee of
                 Identifier name \<Rightarrow>
                   (if getCurrentWithObject st1 = Some LocationObject \<and>
                       (name = ''replace'' \<or> name = ''assign'')
                    then reportFirstArgument ctx st1 args
                    else st1)
               | _ \<Rightarrow> st1)))"

text \<open>The state in which the pass over a file starts.\<close>

definition initialState :: rule_state where
  "initialState = \<lparr>trackedVariables = Map.empty, withStack = [], reports = []\<rparr>"

subsection \<open>Families of inputs and the scopes that enclose a node\<close>

text \<open>
  The expression \<open>window.window.\<dots>.window\<close> with \<open>n\<close> links \<open>.window\<close> after the first
  \<open>window\<close>, and the same expression followed by \<open>.location\<close>.
\<close>

primrec windowChain :: "nat \<Rightarrow> node" where
  "windowChain 0 = Identifier ''window''"
| "windowChain (Suc n) = MemberExpression (windowChain n) (Identifier ''window'') False"

definition windowLocation :: "nat \<Rightarrow> node" where
  "windowLocation n = MemberExpression (windowChain n) (Identifier ''location'') False"

text \<open>
  All definitions recorded for a name in a scope and in the scopes that enclose it. The
  rule itself never walks \<open>upper\<close>; this function only serves to state which
  identifiers have no definition in any enclosing scope.
\<close>

fun definitionsInScopes :: "scope \<Rightarrow> string \<Rightarrow> definition_type list" where
  "definitionsInScopes (Scope vars up) name =
     (case map_of vars name of None \<Rightarrow> [] | Some v \<Rightarrow> defs v) @
     (case up of None \<Rightarrow> [] | Some outer \<Rightarrow> definitionsInScopes outer name)"

section \<open>Example programs\<close>

subsection \<open>A browser page at \<open>https://example.com\<close>\<close>

text \<open>Calling \<open>ensureTrustedUrl(url)\<close> with no second argument: \<open>options = {}\<close>.\<close>

definition noOptions :: EnsureTrustedUrlOptions where
  "noOptions = \<lparr>allowCrossOrigin = None, allowedProtocols = None, allowedOrigins = None\<rparr>"

text \<open>
  The one input below that is not ASCII: \<open>/javascr\<close>, then the letter U+0130 (capital
  I with a dot above, in UTF-8 the characters \<open>0xC4 0xB0\<close>), then \<open>pt:x\<close>.
\<close>

definition dottedCapitalI :: string where
  "dottedCapitalI = ''/javascr'' @ [CHR 0xC4, CHR 0xB0] @ ''pt:x''"

text \<open>
  The global \<open>window\<close> that the repository's tests install, and the answers of the
  platform's URL parser on the inputs used below, each resolved against the base
  \<open>https://example.com\<close>.
\<close>

definition exampleWindow :: js_value where
  "exampleWindow =
     JsObject [(''location'', JsObject [(''origin'', JsString ''https://example.com'')])]"

definition exampleNewURL :: "string \<Rightarrow> string option \<Rightarrow> URL option" where
  "exampleNewURL url base =
     map_of
       [((''/dashboard'', Some ''https://example.com''),
           \<lparr>protocol = ''https:'', origin = ''https://example.com''\<rparr>),
        ((''/JAVASCRIPT:x'', Some ''https://example.com''),
           \<lparr>protocol = ''https:'', origin = ''https://example.com''\<rparr>),
        ((dottedCapitalI, Some ''https://example.com''),
           \<lparr>protocol = ''https:'', origin = ''https://example.com''\<rparr>),
        ((''https://evil.com/page'', Some ''https://example.com''),
           \<lparr>protocol = ''https:'', origin = ''https://evil.com''\<rparr>),
        ((''javascript:alert(1)'', Some ''https://example.com''),
           \<lparr>protocol = ''javascript:'', origin = ''null''\<rparr>)]
       (url, base)"

text \<open>
  The platform's lower-casing on the inputs used below. On an ASCII string it turns the
  letters \<open>A\<close> to \<open>Z\<close> into \<open>a\<close> to \<open>z\<close> and keeps every other character. The
  lower-case form of U+0130 is \<open>i\<close> followed by U+0307 (in UTF-8 \<open>0xCC 0x87\<close>).
\<close>

definition asciiToLowerCase :: "char \<Rightarrow> char" where
  "asciiToLowerCase c =
     (case map_of (zip ''ABCDEFGHIJKLMNOPQRSTUVWXYZ'' ''abcdefghijklmnopqrstuvwxyz'') c of
        Some l \<Rightarrow> l
      | None \<Rightarrow> c)"

definition exampleToLowerCase :: "string \<Rightarrow> string" where
  "exampleToLowerCase s =
     (if s = dottedCapitalI then ''/javascri'' @ [CHR 0xCC, CHR 0x87] @ ''pt:x''
      else map asciiToLowerCase s)"

definition exampleRuntime :: runtime where
  "exampleRuntime =
     \<lparr>window = Some exampleWindow, newURL = exampleNewURL, toLowerCase = exampleToLowerCase\<rparr>"

subsection \<open>Files handed to the rule\<close>

definition anyType :: ts_type where
  "anyType = TsType None PlainType [] [] ''any''"

definition stringType :: ts_type where
  "stringType = TsType None PlainType [] [] ''string''"

definition locationType :: ts_type where
  "locationType = TsType (Some ''Location'') PlainType [] [] ''Location''"

text \<open>A script without declarations, linted without type information.\<close>

definition untypedContext :: rule_context where
  "untypedContext = \<lparr>checker = None, getScope = (\<lambda>n. Scope [] None)\<rparr>"

text \<open>The same script, with a type checker that gives every node the type \<open>string\<close>.\<close>

definition stringTypedContext :: rule_context where
  "stringTypedContext =
     \<lparr>checker = Some (\<lambda>n. Some stringType), getScope = (\<lambda>n. Scope [] None)\<rparr>"

text \<open>
  The body of \<open>function go(location, target) { location.href = target; }\<close>: the
  function's scope declares both parameters, the global scope declares \<open>go\<close>.
\<close>

definition functionScope :: scope where
  "functionScope =
     Scope [(''location'', Variable [ParameterDefinition]),
            (''target'', Variable [ParameterDefinition])]
       (Some (Scope [(''go'', Variable [FunctionNameDefinition])] None))"

definition untypedFunctionContext :: rule_context where
  "untypedFunctionContext = \<lparr>checker = None, getScope = (\<lambda>n. functionScope)\<rparr>"

text \<open>
  The body of a function with the parameters \<open>window\<close> and \<open>target\<close>, linted without
  type information.
\<close>

definition shadowedWindowContext :: rule_context where
  "shadowedWindowContext =
     \<lparr>checker = None,
      getScope =
        (\<lambda>n. Scope [(''window'', Variable [ParameterDefinition]),
                      (''target'', Variable [ParameterDefinition])]
                (Some (Scope [(''go'', Variable [FunctionNameDefinition])] None)))\<rparr>"

text \<open>
  \<open>function go(location: Location, target: string) { location.href = target; }\<close>: the
  parameter \<open>location\<close> has the type \<open>Location\<close>, every other node the type \<open>string\<close>.
\<close>

definition typedParameterContext :: rule_context where
  "typedParameterContext =
     \<lparr>checker =
        Some (\<lambda>n. if n = Identifier ''location'' then Some locationType else Some stringType),
      getScope = (\<lambda>n. functionScope)\<rparr>"

text \<open>
  \<open>function go(location, target) { if (target) { location.href = target; } }\<close>: the
  assignment sits in the block of the \<open>if\<close>, whose scope declares nothing and whose
  enclosing scope is the function's. The parameters have the type \<open>any\<close>.
\<close>

definition nestedBlockScope :: scope where
  "nestedBlockScope = Scope [] (Some functionScope)"

definition shadowingContext :: rule_context where
  "shadowingContext =
     \<lparr>checker = Some (\<lambda>n. Some anyType), getScope = (\<lambda>n. nestedBlockScope)\<rparr>"

text \<open>
  \<open>var w = window; function g(w: { location: Document }) { w.location.location = v; }\<close>,
  inside \<open>g\<close>: the alias map tracks the name \<open>w\<close> as a window, the member expression
  \<open>w.location\<close> has the type \<open>Document\<close>, and the parameter \<open>w\<close> an object type.
\<close>

definition documentType :: ts_type where
  "documentType = TsType (Some ''Document'') PlainType [] [] ''Document''"

definition objectWithLocationType :: ts_type where
  "objectWithLocationType =
     TsType (Some ''__type'') PlainType [] [(''location'', documentType)]
       ''{ location: Document; }''"

definition aliasedNameContext :: rule_context where
  "aliasedNameContext =
     \<lparr>checker =
        Some (\<lambda>n. if n = MemberExpression (Identifier ''w'') (Identifier ''location'') False
                  then Some documentType
                  else Some objectWithLocationType),
      getScope = (\<lambda>n. Scope [(''w'', Variable [ParameterDefinition])]
                         (Some (Scope [(''w'', Variable [VariableDefinition]),
                                       (''g'', Variable [FunctionNameDefinition])] None)))\<rparr>"

definition windowAlias :: "string \<rightharpoonup> VariableInfo" where
  "windowAlias =
     [''w'' \<mapsto> \<lparr>varNode = Identifier ''w'', isLocation = False, isNavigation = False,
                isWindow = True\<rparr>]"

text \<open>
  The repository's test \<open>const open = x => console.log(x); open(someVar);\<close>: the scope of
  the call declares \<open>open\<close>.
\<close>

definition ownOpenContext :: rule_context where
  "ownOpenContext =
     \<lparr>checker = None,
      getScope = (\<lambda>n. Scope [(''open'', Variable [VariableDefinition])] None)\<rparr>"

section \<open>Properties of the runtime validator\<close>

lemma currentOrigin_example: "currentOriginOf exampleWindow = Some ''https://example.com''"
  by (simp add: currentOriginOf_def exampleWindow_def)

text \<open>
  C2, as the code has it. Let the input be a non-empty string that the URL parser
  accepts and whose protocol is allowed. Then \<open>ensureTrustedUrl\<close> raises the
  cross-origin error if and only if \<open>allowCrossOrigin\<close> is false (or absent) and the
  parsed origin is not in the list of allowed origins in force: the caller's
  \<open>allowedOrigins\<close> when one is given, and otherwise the list that holds just the
  current origin (the empty list when there is no current origin). A list given by the
  caller replaces the default; the current origin is not added to it.
\<close>

theorem cross_origin_denied_iff:
  assumes "window env = Some win"
    and "s \<noteq> []"
    and "newURL env s (currentOriginOf win) = Some parsedUrl"
    and "protocol parsedUrl \<in>
           set (case allowedProtocols options of None \<Rightarrow> [''http:'', ''https:''] | Some ps \<Rightarrow> ps)"
  shows "(\<exists>orig. ensureTrustedUrl env (JsString s) options = Inl (CrossOriginNotAllowed orig)) \<longleftrightarrow>
         (\<not> (case allowCrossOrigin options of None \<Rightarrow> False | Some b \<Rightarrow> b) \<and>
          origin parsedUrl \<notin>
            set (case allowedOrigins options of
                   None \<Rightarrow> defaultAllowedOrigins (currentOriginOf win)
                 | Some os \<Rightarrow> os))"
  using assms unfolding ensureTrustedUrl_def
  by (auto simp add: Let_def split: option.splits)

text \<open>
  On the page \<open>https://example.com\<close>, \<open>https://evil.com/page\<close> is refused under the
  default options.
\<close>

theorem cross_origin_denied_iff_witness:
  "\<exists>orig. ensureTrustedUrl exampleRuntime (JsString ''https://evil.com/page'') noOptions =
      Inl (CrossOriginNotAllowed orig)"
  using cross_origin_denied_iff [of exampleRuntime exampleWindow "''https://evil.com/page''"
      "\<lparr>protocol = ''https:'', origin = ''https://evil.com''\<rparr>" noOptions]
  by (simp add: exampleRuntime_def currentOrigin_example exampleNewURL_def dottedCapitalI_def noOptions_def
      defaultAllowedOrigins_def)

text \<open>
  C2 as stated fails: on the page \<open>https://example.com\<close>, with
  \<open>allowedOrigins: ["https://trusted.com"]\<close>, the same-origin URL \<open>/dashboard\<close> parses
  to the current origin and is refused with the cross-origin error.
\<close>

theorem explicit_origins_counterexample:
  "currentOriginOf exampleWindow = Some ''https://example.com'' \<and>
   exampleNewURL ''/dashboard'' (currentOriginOf exampleWindow) =
     Some \<lparr>protocol = ''https:'', origin = ''https://example.com''\<rparr> \<and>
   ensureTrustedUrl exampleRuntime (JsString ''/dashboard'')
     \<lparr>allowCrossOrigin = None, allowedProtocols = None,
      allowedOrigins = Some [''https://trusted.com'']\<rparr> =
     Inl (CrossOriginNotAllowed ''https://example.com'')"
  by (simp add: ensureTrustedUrl_def exampleRuntime_def currentOrigin_example exampleNewURL_def dottedCapitalI_def)

text \<open>
  C3, as the code has it. Let the input be a non-empty string that the URL parser
  accepts, whose protocol is allowed and whose origin passes the origin check. Then
  \<open>ensureTrustedUrl\<close> raises the dangerous-protocol error if the residue of the
  \<^emph>\<open>lower-cased\<close> input, stripped of every character but \<open>a\<close> to \<open>z\<close> and the colon,
  starts with \<open>javascript:\<close>, and returns the input otherwise. The lower-casing is the
  platform's, whatever it does to the characters outside ASCII.
\<close>

theorem dangerous_residue_iff:
  assumes "window env = Some win"
    and "s \<noteq> []"
    and "newURL env s (currentOriginOf win) = Some parsedUrl"
    and "protocol parsedUrl \<in>
           set (case allowedProtocols options of None \<Rightarrow> [''http:'', ''https:''] | Some ps \<Rightarrow> ps)"
    and "origin parsedUrl \<in>
           set (case allowedOrigins options of
                  None \<Rightarrow> defaultAllowedOrigins (currentOriginOf win)
                | Some os \<Rightarrow> os) \<or>
         (case allowCrossOrigin options of None \<Rightarrow> False | Some b \<Rightarrow> b)"
  shows "ensureTrustedUrl env (JsString s) options =
           (if startsWith (filter lowerOrColon (toLowerCase env s)) ''javascript:''
            then Inl (DangerousProtocolDetected s)
            else Inr s)"
  using assms unfolding ensureTrustedUrl_def normalizedUrl_def
  by (auto simp add: Let_def split: option.splits)

lemma lowerCase_dashboard: "exampleToLowerCase ''/dashboard'' = ''/dashboard''"
  by (simp add: exampleToLowerCase_def dottedCapitalI_def asciiToLowerCase_def)

lemma lowerCase_upper: "exampleToLowerCase ''/JAVASCRIPT:x'' = ''/javascript:x''"
  by (simp add: exampleToLowerCase_def dottedCapitalI_def asciiToLowerCase_def)

lemma lowerCase_dotted:
  "exampleToLowerCase dottedCapitalI = ''/javascri'' @ [CHR 0xCC, CHR 0x87] @ ''pt:x''"
  by (simp add: exampleToLowerCase_def)

lemma newURL_dotted:
  "exampleNewURL dottedCapitalI (Some ''https://example.com'') =
     Some \<lparr>protocol = ''https:'', origin = ''https://example.com''\<rparr>"
  by (simp add: exampleNewURL_def dottedCapitalI_def)

text \<open>
  \<open>/dashboard\<close> passes every check and is returned. The input with U+0130 is refused:
  its lower-case form has an \<open>i\<close> where the input has none.
\<close>

theorem dangerous_residue_iff_witness:
  "ensureTrustedUrl exampleRuntime (JsString ''/dashboard'') noOptions = Inr ''/dashboard'' \<and>
   ensureTrustedUrl exampleRuntime (JsString dottedCapitalI) noOptions =
     Inl (DangerousProtocolDetected dottedCapitalI)"
proof -
  have nonempty: "dottedCapitalI \<noteq> []"
    by (simp add: dottedCapitalI_def)
  have first: "ensureTrustedUrl exampleRuntime (JsString ''/dashboard'') noOptions =
      Inr ''/dashboard''"
    using dangerous_residue_iff [of exampleRuntime exampleWindow "''/dashboard''"
        "\<lparr>protocol = ''https:'', origin = ''https://example.com''\<rparr>" noOptions]
    by (simp add: exampleRuntime_def currentOrigin_example exampleNewURL_def dottedCapitalI_def noOptions_def
        defaultAllowedOrigins_def lowerCase_dashboard lowerOrColon_def startsWith_def)
  have second: "ensureTrustedUrl exampleRuntime (JsString dottedCapitalI) noOptions =
      Inl (DangerousProtocolDetected dottedCapitalI)"
    using dangerous_residue_iff [of exampleRuntime exampleWindow dottedCapitalI
        "\<lparr>protocol = ''https:'', origin = ''https://example.com''\<rparr>" noOptions] nonempty
    by (simp add: exampleRuntime_def currentOrigin_example newURL_dotted noOptions_def
        defaultAllowedOrigins_def lowerCase_dotted lowerOrColon_def startsWith_def)
  show ?thesis
    using first second by blast
qed

text \<open>
  C3 as stated fails: \<open>/JAVASCRIPT:x\<close> passes the checks before, and the residue of
  the raw input that keeps only lower-case letters and colons is \<open>:x\<close>, which does not
  start with \<open>javascript:\<close>; the code raises the dangerous-protocol error all the same.
\<close>

theorem raw_residue_counterexample:
  "ensureTrustedUrl exampleRuntime (JsString ''/JAVASCRIPT:x'') noOptions =
     Inl (DangerousProtocolDetected ''/JAVASCRIPT:x'') \<and>
   \<not> startsWith (filter lowerOrColon ''/JAVASCRIPT:x'') ''javascript:''"
  by (simp add: ensureTrustedUrl_def exampleRuntime_def currentOrigin_example exampleNewURL_def dottedCapitalI_def
      noOptions_def defaultAllowedOrigins_def normalizedUrl_def lowerCase_upper
      lowerOrColon_def startsWith_def)

text \<open>
  C6. The protocol is checked before the origin: for a non-empty string that parses
  to a protocol outside \<open>allowedProtocols\<close>, the error is the unsafe-protocol error
  whatever \<open>allowCrossOrigin\<close> and \<open>allowedOrigins\<close> are, also when the origin check
  would fail too. In particular \<open>javascript:alert(1)\<close>, which parses to the protocol
  \<open>javascript:\<close>, raises it under the default \<open>allowedProtocols\<close> for every value of
  the other options.
\<close>

theorem protocol_check_first:
  "(window env = Some win \<and> s \<noteq> [] \<and> newURL env s (currentOriginOf win) = Some parsedUrl \<and>
    protocol parsedUrl \<notin>
      set (case allowedProtocols options of None \<Rightarrow> [''http:'', ''https:''] | Some ps \<Rightarrow> ps)
    \<longrightarrow> ensureTrustedUrl env (JsString s) options = Inl (UnsafeURLProtocol (protocol parsedUrl))) \<and>
   (window env = Some win \<and>
    newURL env ''javascript:alert(1)'' (currentOriginOf win) = Some parsedUrl \<and>
    protocol parsedUrl = ''javascript:'' \<and> allowedProtocols options = None
    \<longrightarrow> ensureTrustedUrl env (JsString ''javascript:alert(1)'') options =
          Inl (UnsafeURLProtocol ''javascript:''))"
  unfolding ensureTrustedUrl_def
  by (auto simp add: Let_def split: option.splits)

text \<open>
  \<open>javascript:alert(1)\<close> with \<open>allowCrossOrigin: true\<close> and with no options; in the
  second call the origin \<open>null\<close> would fail the origin check as well.
\<close>

theorem protocol_check_first_witness:
  "ensureTrustedUrl exampleRuntime (JsString ''javascript:alert(1)'')
     \<lparr>allowCrossOrigin = Some True, allowedProtocols = None, allowedOrigins = None\<rparr> =
     Inl (UnsafeURLProtocol ''javascript:'') \<and>
   ensureTrustedUrl exampleRuntime (JsString ''javascript:alert(1)'') noOptions =
     Inl (UnsafeURLProtocol ''javascript:'')"
  using protocol_check_first [of exampleRuntime exampleWindow "''javascript:alert(1)''"
      "\<lparr>protocol = ''javascript:'', origin = ''null''\<rparr>"
      "\<lparr>allowCrossOrigin = Some True, allowedProtocols = None, allowedOrigins = None\<rparr>"]
    protocol_check_first [of exampleRuntime exampleWindow "''javascript:alert(1)''"
      "\<lparr>protocol = ''javascript:'', origin = ''null''\<rparr>" noOptions]
  by (simp add: exampleRuntime_def currentOrigin_example exampleNewURL_def dottedCapitalI_def noOptions_def)

text \<open>
  C8. \<open>ensureTrustedUrl\<close> either raises, and then yields no value, or returns a string
  that is exactly its input: never the parsed or the normalised URL. The function is a
  function of its arguments and of what it reads from its surroundings, and has no
  other effect: it changes neither of them and navigates nowhere.
\<close>

theorem returns_input_unchanged:
  "(\<exists>e. ensureTrustedUrl env url options = Inl e) \<or>
   (\<exists>s. url = JsString s \<and> ensureTrustedUrl env url options = Inr s)"
  unfolding ensureTrustedUrl_def
  by (cases url) (auto simp add: Let_def split: option.splits)

theorem returns_input_unchanged_witness:
  "ensureTrustedUrl exampleRuntime (JsString ''/dashboard'')
     \<lparr>allowCrossOrigin = Some True, allowedProtocols = None, allowedOrigins = None\<rparr> =
     Inr ''/dashboard'' \<and>
   (\<exists>e. ensureTrustedUrl exampleRuntime (JsNumber 123) noOptions = Inl e)"
  using returns_input_unchanged [of exampleRuntime "JsString ''/dashboard''"
      "\<lparr>allowCrossOrigin = Some True, allowedProtocols = None, allowedOrigins = None\<rparr>"]
    returns_input_unchanged [of exampleRuntime "JsNumber 123" noOptions]
  by (simp add: ensureTrustedUrl_def exampleRuntime_def currentOrigin_example exampleNewURL_def dottedCapitalI_def
      normalizedUrl_def lowerCase_dashboard lowerOrColon_def startsWith_def)

section \<open>Properties of the safety classifier\<close>

text \<open>
  What \<open>isValueSafe\<close> answers on a concatenation: only the leftmost operand counts. A
  string literal there is accepted unless it consists of slashes and backslashes only;
  a template literal with a single quasi must be non-empty as well.
\<close>

lemma isValueSafe_concatenation:
  "isValueSafe ctx (BinaryExpression ''+'' l r) =
     (case leftmostOperand l of
        Literal (StringValue v) \<Rightarrow> \<not> slashesOnly v
      | TemplateLiteral [v] es \<Rightarrow> v \<noteq> [] \<and> \<not> slashesOnly v
      | _ \<Rightarrow> False)"
  by (simp add: isValueSafe_def isSafeLiteral_def
      split: node.splits literal_value.splits list.splits)

text \<open>
  C1 does not hold of the code: the concatenation \<open>"" + someVariable\<close>, whose leftmost
  operand is the empty string literal, is classified safe, with or without type
  information. The pattern \<open>/^[/\\]+$/\<close> does not match the empty string, and the
  branch for string literals has no test of the length, which both branches for
  template literals have.
\<close>

theorem empty_prefix_concatenation_classified_safe:
  "isValueSafe ctx
     (BinaryExpression ''+'' (Literal (StringValue [])) (Identifier ''someVariable''))"
  by (simp add: isValueSafe_def isSafeLiteral_def slashesOnly_def)

text \<open>
  C5. A template literal with at least one interpolation is classified safe if and
  only if it has a first quasi, that quasi is non-empty, and not every character of it
  is a slash or a backslash. In particular a template whose first quasi is empty is
  unsafe.
\<close>

theorem interpolated_template_safe_iff:
  assumes "expressions \<noteq> []"
  shows "isValueSafe ctx (TemplateLiteral quasis expressions) \<longleftrightarrow>
         (\<exists>firstQuasi rest. quasis = firstQuasi # rest \<and> firstQuasi \<noteq> [] \<and>
            \<not> (\<forall>c \<in> set firstQuasi. c = CHR ''/'' \<or> c = CHR 0x5C))"
  using assms
  by (auto simp add: isValueSafe_def isSafeLiteral_def slashesOnly_def list_all_iff
      split: list.splits)

text \<open>
  The templates \<open>`/dashboard/${someVariable}`\<close> (safe), \<open>`/${someVariable}`\<close> and
  \<open>`${someVariable}?param1=a`\<close> (both unsafe) of the repository's tests.
\<close>

theorem interpolated_template_safe_iff_witness:
  "isValueSafe untypedContext
     (TemplateLiteral [''/dashboard/'', []] [Identifier ''someVariable'']) \<and>
   \<not> isValueSafe untypedContext (TemplateLiteral [''/'', []] [Identifier ''someVariable'']) \<and>
   \<not> isValueSafe untypedContext
     (TemplateLiteral [[], ''?param1=a''] [Identifier ''someVariable''])"
  using interpolated_template_safe_iff [of "[Identifier ''someVariable'']" untypedContext
      "[''/dashboard/'', []]"]
    interpolated_template_safe_iff [of "[Identifier ''someVariable'']" untypedContext
      "[''/'', []]"]
    interpolated_template_safe_iff [of "[Identifier ''someVariable'']" untypedContext
      "[[], ''?param1=a'']"]
  by simp

section \<open>Properties of the redirect-object resolver\<close>

lemma untyped_redirectObjectOfType:
  "checker ctx = None \<Longrightarrow> redirectObjectOfType ctx n = None"
  by (simp add: redirectObjectOfType_def getType_def)

lemma propertyOfObjectType_window:
  "propertyOfObjectType k (Identifier ''window'') = None"
  by (simp add: propertyOfObjectType_def)

text \<open>
  The lexical rules give no kind to a member \<open>.window\<close>: such a node gets its kind from
  its type or not at all.
\<close>

lemma member_window_by_type:
  "isRedirectObject ctx tracked (MemberExpression a (Identifier ''window'') c) =
     redirectObjectOfType ctx (MemberExpression a (Identifier ''window'') c)"
  by (cases a) (simp_all add: propertyOfObjectType_window split: option.splits)

lemma member_location:
  assumes "redirectObjectOfType ctx (MemberExpression a (Identifier ''location'') c) = None"
    and "isRedirectObject ctx tracked a = Some WindowObject"
  shows "isRedirectObject ctx tracked (MemberExpression a (Identifier ''location'') c) =
           Some LocationObject"
  using assms
  by (cases a) (simp_all add: propertyOfObjectType_def Let_def del: isRedirectObject.simps(1))

lemma member_navigation:
  assumes "redirectObjectOfType ctx (MemberExpression a (Identifier ''navigation'') c) = None"
    and "isRedirectObject ctx tracked a = Some WindowObject"
  shows "isRedirectObject ctx tracked (MemberExpression a (Identifier ''navigation'') c) =
           Some NavigationObject"
  using assms
  by (cases a) (simp_all add: propertyOfObjectType_def Let_def del: isRedirectObject.simps(1))

lemma untyped_windowLocation:
  assumes "checker ctx = None"
  shows "isRedirectObject ctx tracked
           (MemberExpression (windowChain (Suc n)) (Identifier ''location'') False) = None"
proof -
  have "isRedirectObject ctx tracked (windowChain (Suc n)) = None"
    using assms
    by (simp only: windowChain.simps member_window_by_type untyped_redirectObjectOfType)
  then show ?thesis
    using assms
    by (simp add: untyped_redirectObjectOfType propertyOfObjectType_def
        del: isRedirectObject.simps(1))
qed

text \<open>
  C7, as the code has it. The type of a node is asked first: a node whose type names a
  kind resolves to that kind. So the member rule applies to a member expression \<open>A.B\<close>
  whose own type names no kind: if then \<open>A\<close> resolves to \<open>window\<close> and \<open>B\<close> is the
  identifier \<open>location\<close> (or \<open>navigation\<close>), the result is \<open>location\<close> (or
  \<open>navigation\<close>). For the chains: a prefix
  \<open>window.window.\<dots>.window\<close> with at least one link \<open>.window\<close> resolves exactly as its
  type says; so \<open>window.\<dots>.window.location\<close> with \<open>n \<ge> 1\<close> extra links resolves to
  \<open>location\<close> when the type checker names the prefix a window, and to nothing when
  there is no type information. (With no extra link, \<open>window.location\<close> is an instance
  of the member rule.)
\<close>

theorem member_of_window_object:
  "(redirectObjectOfType ctx (MemberExpression a (Identifier p) c) = None \<and>
    isRedirectObject ctx tracked a = Some WindowObject \<longrightarrow>
      (p = ''location'' \<longrightarrow>
         isRedirectObject ctx tracked (MemberExpression a (Identifier p) c) =
           Some LocationObject) \<and>
      (p = ''navigation'' \<longrightarrow>
         isRedirectObject ctx tracked (MemberExpression a (Identifier p) c) =
           Some NavigationObject)) \<and>
   isRedirectObject ctx tracked (windowChain (Suc n)) =
     redirectObjectOfType ctx (windowChain (Suc n)) \<and>
   (redirectObjectOfType ctx (windowChain (Suc n)) = Some WindowObject \<and>
    redirectObjectOfType ctx (windowLocation (Suc n)) = None \<longrightarrow>
      isRedirectObject ctx tracked (windowLocation (Suc n)) = Some LocationObject) \<and>
   (checker ctx = None \<longrightarrow> isRedirectObject ctx tracked (windowLocation (Suc n)) = None) \<and>
   (redirectObjectOfType ctx e = Some k \<longrightarrow> isRedirectObject ctx tracked e = Some k)"
proof -
  have first: "isRedirectObject ctx tracked e = Some k" if "redirectObjectOfType ctx e = Some k"
    using that by (cases e) simp_all
  have chain: "isRedirectObject ctx tracked (windowChain (Suc n)) =
      redirectObjectOfType ctx (windowChain (Suc n))"
    by (simp only: windowChain.simps member_window_by_type)
  have typed: "isRedirectObject ctx tracked (windowLocation (Suc n)) = Some LocationObject"
    if "redirectObjectOfType ctx (windowChain (Suc n)) = Some WindowObject"
      and "redirectObjectOfType ctx (windowLocation (Suc n)) = None"
    using that chain member_location [of ctx "windowChain (Suc n)" False tracked]
    by (simp only: windowLocation_def)
  have untyped: "isRedirectObject ctx tracked (windowLocation (Suc n)) = None"
    if "checker ctx = None"
    using that untyped_windowLocation [of ctx tracked n] by (simp only: windowLocation_def)
  show ?thesis
    using first chain typed untyped member_location [of ctx a c tracked]
      member_navigation [of ctx a c tracked]
    by blast
qed

text \<open>
  Without type information: through the alias \<open>var w = window\<close>, \<open>w.location\<close> and
  \<open>w.navigation\<close> resolve; \<open>window.location\<close> resolves; \<open>window.window.window.location\<close>
  does not.
\<close>

theorem member_of_window_object_witness:
  "isRedirectObject untypedContext windowAlias
     (MemberExpression (Identifier ''w'') (Identifier ''location'') False) =
     Some LocationObject \<and>
   isRedirectObject untypedContext windowAlias
     (MemberExpression (Identifier ''w'') (Identifier ''navigation'') False) =
     Some NavigationObject \<and>
   isRedirectObject untypedContext Map.empty (windowLocation 0) = Some LocationObject \<and>
   isRedirectObject untypedContext Map.empty (windowLocation 2) = None"
proof -
  have none: "redirectObjectOfType untypedContext m = None" for m
    by (simp add: untypedContext_def redirectObjectOfType_def getType_def)
  have w: "isRedirectObject untypedContext windowAlias (Identifier ''w'') = Some WindowObject"
    by (simp add: none windowAlias_def)
  have global: "isGlobalIdentifier untypedContext m" for m
    by (simp add: untypedContext_def isGlobalIdentifier_def split: node.splits)
  have window:
    "isRedirectObject untypedContext Map.empty (Identifier ''window'') = Some WindowObject"
    by (simp add: none global)
  have unt: "checker untypedContext = None"
    by (simp add: untypedContext_def)
  have c1: "isRedirectObject untypedContext windowAlias
      (MemberExpression (Identifier ''w'') (Identifier ''location'') False) = Some LocationObject"
    using member_of_window_object [of untypedContext "Identifier ''w''" "''location''" False
        windowAlias 1] none w
    by blast
  have c2: "isRedirectObject untypedContext windowAlias
      (MemberExpression (Identifier ''w'') (Identifier ''navigation'') False) =
      Some NavigationObject"
    using member_of_window_object [of untypedContext "Identifier ''w''" "''navigation''" False
        windowAlias 1] none w
    by blast
  have c3: "isRedirectObject untypedContext Map.empty (windowLocation 0) = Some LocationObject"
    using member_of_window_object [of untypedContext "Identifier ''window''" "''location''"
        False Map.empty 1] none window
    unfolding windowLocation_def windowChain.simps
    by blast
  have c4: "isRedirectObject untypedContext Map.empty (windowLocation 2) = None"
    using member_of_window_object [of untypedContext "Identifier ''window''" "''location''"
        False Map.empty 1] unt
    unfolding Suc_1
    by blast
  show ?thesis
    using c1 c2 c3 c4 by blast
qed

text \<open>
  C7 as stated fails on two inputs. For one extra link already: without type information
  the global \<open>window\<close> resolves to \<open>window\<close>, and \<open>window.window.location\<close> resolves
  to nothing. And where the type speaks: in
  \<open>var w = window; function g(w: { location: Document }) { \<dots> w.location \<dots> }\<close> the name
  \<open>w\<close> resolves to \<open>window\<close> through the alias map, and \<open>w.location\<close>, whose type is
  \<open>Document\<close>, resolves to \<open>window\<close>, not to \<open>location\<close>.
\<close>

theorem window_window_location_counterexample:
  "isRedirectObject untypedContext Map.empty (Identifier ''window'') = Some WindowObject \<and>
   isRedirectObject untypedContext Map.empty
     (MemberExpression (MemberExpression (Identifier ''window'') (Identifier ''window'') False)
        (Identifier ''location'') False) = None \<and>
   isRedirectObject aliasedNameContext windowAlias (Identifier ''w'') = Some WindowObject \<and>
   isRedirectObject aliasedNameContext windowAlias
     (MemberExpression (Identifier ''w'') (Identifier ''location'') False) = Some WindowObject"
  by (simp add: untypedContext_def redirectObjectOfType_def getType_def isGlobalIdentifier_def
      propertyOfObjectType_def aliasedNameContext_def windowAlias_def documentType_def
      objectWithLocationType_def)

section \<open>Properties of the visitor\<close>

subsection \<open>Shadowed names\<close>

lemma declared_here_not_global:
  assumes "map_of (variables (getScope ctx (Identifier name))) name = Some v"
    and "defs v \<noteq> []"
  shows "\<not> isGlobalIdentifier ctx (Identifier name)"
  using assms by (simp add: isGlobalIdentifier_def)

lemma no_definitions_global:
  assumes "definitionsInScopes (getScope ctx (Identifier name)) name = []"
  shows "isGlobalIdentifier ctx (Identifier name)"
  using assms
  by (cases "getScope ctx (Identifier name)")
    (simp add: isGlobalIdentifier_def split: option.splits)

lemma not_global_unresolved:
  assumes "\<not> isGlobalIdentifier ctx (Identifier name)"
    and "redirectObjectOfType ctx (Identifier name) = None"
    and "tracked name = None"
  shows "isRedirectObject ctx tracked (Identifier name) = None"
  using assms by simp

lemma shadowed_member_unresolved:
  assumes "\<not> isGlobalIdentifier ctx (Identifier name)"
    and "isRedirectObject ctx tracked (Identifier name) = None"
    and "redirectObjectOfType ctx (MemberExpression (Identifier name) p c) = None"
  shows "isRedirectObject ctx tracked (MemberExpression (Identifier name) p c) = None"
  using assms
  by (cases p) (simp_all add: propertyOfObjectType_def Let_def del: isRedirectObject.simps(1))

lemma assignToMember_unresolved_identifier:
  assumes "isRedirectObject ctx (trackedVariables st) (Identifier name) = None"
    and "\<not> isGlobalIdentifier ctx (Identifier name)"
  shows "assignToMember ctx st (MemberExpression (Identifier name) property computed) x =
           (st, False)"
  using assms
  by (simp add: assignToMember_def Let_def del: isRedirectObject.simps)

lemma assignToMember_unresolved_member:
  assumes "isRedirectObject ctx (trackedVariables st) (MemberExpression a b c) = None"
  shows "assignToMember ctx st (MemberExpression (MemberExpression a b c) property computed) x =
           (st, False)"
  using assms
  by (simp add: assignToMember_def Let_def del: isRedirectObject.simps)

lemma assignment_not_to_identifier:
  assumes "assignToMember ctx st m x = (st, False)"
    and "m = MemberExpression object property computed"
  shows "visitAssignmentExpression ctx st m x = st"
    and "visitAssignmentExpression ctx st (ChainExpression m) x = st"
  using assms
  by (simp_all add: visitAssignmentExpression_def unwrapChainExpression_def
      assignToIdentifier_def)

lemma unresolved_identifier_assignment:
  assumes "isRedirectObject ctx (trackedVariables st) (Identifier name) = None"
    and "name \<noteq> ''href''"
  shows "visitAssignmentExpression ctx st (Identifier name) x = st"
  using assms
  by (simp add: visitAssignmentExpression_def assignToMember_def unwrapChainExpression_def
      assignToIdentifier_def split: option.splits)

lemma unresolved_method_call:
  assumes "isRedirectObject ctx (trackedVariables st) object = None"
  shows "visitCallExpression ctx st (MemberExpression object property computed) args = st"
    and "visitCallExpression ctx st
           (ChainExpression (MemberExpression object property computed)) args = st"
  using assms
  by (simp_all add: visitCallExpression_def getOpenCallInfo_def unwrapChainExpression_def
      Let_def del: isRedirectObject.simps)

lemma local_open_call:
  assumes "\<not> isGlobalIdentifier ctx (Identifier ''open'')"
  shows "visitCallExpression ctx st (Identifier ''open'') args = st"
  using assms by (simp add: visitCallExpression_def getOpenCallInfo_def)

text \<open>
  C4, as the code has it. Take an occurrence of a name for which the innermost scope
  around the occurrence records a variable with at least one definition (a local
  variable, a parameter or a function declaration of that scope). It is not taken for
  the global object, and a call \<open>open(\<dots>)\<close> of such a name reports nothing. The
  resolver gives the occurrence a kind only through its type or through the alias
  map. Where neither speaks, the name resolves to nothing, and nothing is reported for
  an assignment to the name itself, for an assignment to a member \<open>name.p\<close>, or for a
  call \<open>name.p(\<dots>)\<close>. Where moreover the type of \<open>name.p\<close> names no kind, \<open>name.p\<close>
  resolves to nothing as well, whatever \<open>p\<close> is, and nothing is reported for an
  assignment to \<open>name.p.q\<close> or for a call \<open>name.p.q(\<dots>)\<close>: a shadowed \<open>window\<close> is no
  way to \<open>location\<close>, \<open>navigation\<close> or \<open>open\<close>. All of this holds with the target or the
  callee in an optional chain, too. An identifier with no definition recorded in any
  enclosing scope is global.
\<close>

theorem shadowed_in_own_scope:
  "(map_of (variables (getScope ctx (Identifier name))) name = Some v \<and> defs v \<noteq> [] \<longrightarrow>
      \<not> isGlobalIdentifier ctx (Identifier name) \<and>
      (name = ''open'' \<longrightarrow> visitCallExpression ctx st (Identifier name) args = st) \<and>
      (redirectObjectOfType ctx (Identifier name) = None \<and> trackedVariables st name = None \<longrightarrow>
         isRedirectObject ctx (trackedVariables st) (Identifier name) = None \<and>
         (name \<noteq> ''href'' \<longrightarrow> visitAssignmentExpression ctx st (Identifier name) x = st) \<and>
         visitAssignmentExpression ctx st (MemberExpression (Identifier name) p c) x = st \<and>
         visitAssignmentExpression ctx st
           (ChainExpression (MemberExpression (Identifier name) p c)) x = st \<and>
         visitCallExpression ctx st (MemberExpression (Identifier name) p c) args = st \<and>
         visitCallExpression ctx st
           (ChainExpression (MemberExpression (Identifier name) p c)) args = st \<and>
         (redirectObjectOfType ctx (MemberExpression (Identifier name) p c) = None \<longrightarrow>
            isRedirectObject ctx (trackedVariables st) (MemberExpression (Identifier name) p c) =
              None \<and>
            visitAssignmentExpression ctx st
              (MemberExpression (MemberExpression (Identifier name) p c) q d) x = st \<and>
            visitAssignmentExpression ctx st
              (ChainExpression (MemberExpression (MemberExpression (Identifier name) p c) q d))
              x = st \<and>
            visitCallExpression ctx st
              (MemberExpression (MemberExpression (Identifier name) p c) q d) args = st \<and>
            visitCallExpression ctx st
              (ChainExpression (MemberExpression (MemberExpression (Identifier name) p c) q d))
              args = st))) \<and>
   (definitionsInScopes (getScope ctx (Identifier name)) name = [] \<longrightarrow>
      isGlobalIdentifier ctx (Identifier name))"
    (is "(?declared \<longrightarrow> ?local \<and> ?opened \<and> (?silent \<longrightarrow> ?through)) \<and> ?undeclared")
proof -
  let ?tracked = "trackedVariables st"
  let ?member = "MemberExpression (Identifier name) p c"
  have undeclared: ?undeclared
    using no_definitions_global [of ctx name] by blast
  have declared: "?local \<and> ?opened \<and> (?silent \<longrightarrow> ?through)" if here: ?declared
  proof -
    have "local": ?local
      using here declared_here_not_global [of ctx name v] by blast
    have opened: ?opened
    proof
      assume "name = ''open''"
      with "local" show "visitCallExpression ctx st (Identifier name) args = st"
        using local_open_call [of ctx st args] by simp
    qed
    have through: ?through if silent: ?silent
    proof -
      have none: "isRedirectObject ctx ?tracked (Identifier name) = None"
        using "local" silent not_global_unresolved [of ctx name ?tracked] by blast
      have bare: "name \<noteq> ''href'' \<longrightarrow> visitAssignmentExpression ctx st (Identifier name) x = st"
        using none unresolved_identifier_assignment [of ctx st name x] by blast
      have pair: "assignToMember ctx st ?member x = (st, False)"
        using none "local" by (rule assignToMember_unresolved_identifier)
      note assign = assignment_not_to_identifier [OF pair refl]
      note call = unresolved_method_call [OF none, of p c args]
      have deeper:
        "isRedirectObject ctx ?tracked ?member = None \<and>
         visitAssignmentExpression ctx st (MemberExpression ?member q d) x = st \<and>
         visitAssignmentExpression ctx st (ChainExpression (MemberExpression ?member q d)) x =
           st \<and>
         visitCallExpression ctx st (MemberExpression ?member q d) args = st \<and>
         visitCallExpression ctx st (ChainExpression (MemberExpression ?member q d)) args = st"
        if untyped: "redirectObjectOfType ctx ?member = None"
      proof -
        have none': "isRedirectObject ctx ?tracked ?member = None"
          using "local" none untyped by (rule shadowed_member_unresolved)
        have pair': "assignToMember ctx st (MemberExpression ?member q d) x = (st, False)"
          using none' by (rule assignToMember_unresolved_member)
        note assign' = assignment_not_to_identifier [OF pair' refl]
        note call' = unresolved_method_call [OF none', of q d args]
        show ?thesis
          using none' assign' call' by blast
      qed
      show ?thesis
        using none bare assign call deeper by blast
    qed
    show ?thesis
      using "local" opened through by blast
  qed
  show ?thesis
    using declared undeclared by blast
qed

text \<open>
  Linted without type information. In
  \<open>function go(location, target) { location.href = target; }\<close> the parameter \<open>location\<close>
  is no sink, and \<open>window\<close>, which nothing declares, is global. In a function with the
  parameters \<open>window\<close> and \<open>target\<close>, none of \<open>window.location = target\<close>,
  \<open>window.location.href = target\<close>, \<open>window.location.replace(target)\<close>,
  \<open>window.navigation.navigate(target)\<close> and \<open>window.open(target)\<close> is reported. The
  repository's own function \<open>open\<close> may be called with anything.
\<close>

theorem shadowed_in_own_scope_witness:
  "\<not> isGlobalIdentifier untypedFunctionContext (Identifier ''location'') \<and>
   isRedirectObject untypedFunctionContext Map.empty (Identifier ''location'') = None \<and>
   visitAssignmentExpression untypedFunctionContext initialState
     (MemberExpression (Identifier ''location'') (Identifier ''href'') False)
     (Identifier ''target'') = initialState \<and>
   visitAssignmentExpression untypedFunctionContext initialState
     (Identifier ''location'') (Identifier ''target'') = initialState \<and>
   visitCallExpression untypedFunctionContext initialState
     (MemberExpression (Identifier ''location'') (Identifier ''replace'') False)
     [Identifier ''target''] = initialState \<and>
   isGlobalIdentifier untypedFunctionContext (Identifier ''window'') \<and>
   isRedirectObject shadowedWindowContext Map.empty
     (MemberExpression (Identifier ''window'') (Identifier ''location'') False) = None \<and>
   visitAssignmentExpression shadowedWindowContext initialState
     (MemberExpression (Identifier ''window'') (Identifier ''location'') False)
     (Identifier ''target'') = initialState \<and>
   visitAssignmentExpression shadowedWindowContext initialState
     (MemberExpression
        (MemberExpression (Identifier ''window'') (Identifier ''location'') False)
        (Identifier ''href'') False)
     (Identifier ''target'') = initialState \<and>
   visitCallExpression shadowedWindowContext initialState
     (MemberExpression
        (MemberExpression (Identifier ''window'') (Identifier ''location'') False)
        (Identifier ''replace'') False)
     [Identifier ''target''] = initialState \<and>
   visitCallExpression shadowedWindowContext initialState
     (MemberExpression
        (MemberExpression (Identifier ''window'') (Identifier ''navigation'') False)
        (Identifier ''navigate'') False)
     [Identifier ''target''] = initialState \<and>
   visitCallExpression shadowedWindowContext initialState
     (MemberExpression (Identifier ''window'') (Identifier ''open'') False)
     [Identifier ''target''] = initialState \<and>
   visitCallExpression ownOpenContext initialState (Identifier ''open'')
     [Identifier ''someVar''] = initialState"
proof -
  let ?parameter = "Variable [ParameterDefinition]"
  let ?target = "Identifier ''target''"
  have untyped: "redirectObjectOfType untypedFunctionContext m = None"
    "redirectObjectOfType shadowedWindowContext m = None" for m
    by (simp_all add: untypedFunctionContext_def shadowedWindowContext_def
        redirectObjectOfType_def getType_def)
  have fresh: "trackedVariables initialState m = None" for m
    by (simp add: initialState_def)
  have tracked: "trackedVariables initialState = Map.empty"
    by (simp add: initialState_def)
  have locationDeclared:
    "map_of (variables (getScope untypedFunctionContext (Identifier ''location''))) ''location'' =
       Some ?parameter \<and> defs ?parameter \<noteq> []"
    by (simp add: untypedFunctionContext_def functionScope_def)
  have windowDeclared:
    "map_of (variables (getScope shadowedWindowContext (Identifier ''window''))) ''window'' =
       Some ?parameter \<and> defs ?parameter \<noteq> []"
    by (simp add: shadowedWindowContext_def)
  have openDeclared:
    "map_of (variables (getScope ownOpenContext (Identifier ''open''))) ''open'' =
       Some (Variable [VariableDefinition]) \<and> defs (Variable [VariableDefinition]) \<noteq> []"
    by (simp add: ownOpenContext_def)
  have windowUndeclared:
    "definitionsInScopes (getScope untypedFunctionContext (Identifier ''window'')) ''window'' = []"
    by (simp add: untypedFunctionContext_def functionScope_def)
  have notHref: "''location'' \<noteq> ''href''"
    by simp
  have location1:
    "\<not> isGlobalIdentifier untypedFunctionContext (Identifier ''location'') \<and>
     isRedirectObject untypedFunctionContext (trackedVariables initialState)
       (Identifier ''location'') = None \<and>
     visitAssignmentExpression untypedFunctionContext initialState
       (MemberExpression (Identifier ''location'') (Identifier ''href'') False) ?target =
       initialState \<and>
     visitAssignmentExpression untypedFunctionContext initialState
       (Identifier ''location'') ?target = initialState"
    using shadowed_in_own_scope [where ctx = untypedFunctionContext and name = "''location''"
        and v = ?parameter and st = initialState and x = ?target
        and p = "Identifier ''href''" and c = False]
      locationDeclared untyped(1) fresh notHref
    by blast
  have location2:
    "visitCallExpression untypedFunctionContext initialState
       (MemberExpression (Identifier ''location'') (Identifier ''replace'') False)
       [?target] = initialState"
    using shadowed_in_own_scope [where ctx = untypedFunctionContext and name = "''location''"
        and v = ?parameter and st = initialState and args = "[?target]"
        and p = "Identifier ''replace''" and c = False]
      locationDeclared untyped(1) fresh
    by blast
  have global: "isGlobalIdentifier untypedFunctionContext (Identifier ''window'')"
    using shadowed_in_own_scope [where ctx = untypedFunctionContext and name = "''window''"]
      windowUndeclared
    by blast
  have window1:
    "isRedirectObject shadowedWindowContext (trackedVariables initialState)
       (MemberExpression (Identifier ''window'') (Identifier ''location'') False) = None \<and>
     visitAssignmentExpression shadowedWindowContext initialState
       (MemberExpression (Identifier ''window'') (Identifier ''location'') False) ?target =
       initialState \<and>
     visitAssignmentExpression shadowedWindowContext initialState
       (MemberExpression
          (MemberExpression (Identifier ''window'') (Identifier ''location'') False)
          (Identifier ''href'') False) ?target = initialState"
    using shadowed_in_own_scope [where ctx = shadowedWindowContext and name = "''window''"
        and v = ?parameter and st = initialState and x = ?target
        and p = "Identifier ''location''" and c = False
        and q = "Identifier ''href''" and d = False]
      windowDeclared untyped(2) fresh
    by blast
  have window2:
    "visitCallExpression shadowedWindowContext initialState
       (MemberExpression
          (MemberExpression (Identifier ''window'') (Identifier ''location'') False)
          (Identifier ''replace'') False) [?target] = initialState"
    using shadowed_in_own_scope [where ctx = shadowedWindowContext and name = "''window''"
        and v = ?parameter and st = initialState and args = "[?target]"
        and p = "Identifier ''location''" and c = False
        and q = "Identifier ''replace''" and d = False]
      windowDeclared untyped(2) fresh
    by blast
  have window3:
    "visitCallExpression shadowedWindowContext initialState
       (MemberExpression
          (MemberExpression (Identifier ''window'') (Identifier ''navigation'') False)
          (Identifier ''navigate'') False) [?target] = initialState"
    using shadowed_in_own_scope [where ctx = shadowedWindowContext and name = "''window''"
        and v = ?parameter and st = initialState and args = "[?target]"
        and p = "Identifier ''navigation''" and c = False
        and q = "Identifier ''navigate''" and d = False]
      windowDeclared untyped(2) fresh
    by blast
  have window4:
    "visitCallExpression shadowedWindowContext initialState
       (MemberExpression (Identifier ''window'') (Identifier ''open'') False) [?target] =
       initialState"
    using shadowed_in_own_scope [where ctx = shadowedWindowContext and name = "''window''"
        and v = ?parameter and st = initialState and args = "[?target]"
        and p = "Identifier ''open''" and c = False]
      windowDeclared untyped(2) fresh
    by blast
  have ownOpen:
    "visitCallExpression ownOpenContext initialState (Identifier ''open'')
       [Identifier ''someVar''] = initialState"
    using shadowed_in_own_scope [where ctx = ownOpenContext and name = "''open''"
        and v = "Variable [VariableDefinition]" and st = initialState
        and args = "[Identifier ''someVar'']"]
      openDeclared
    by blast
  show ?thesis
    using location1 location2 global window1 window2 window3 window4 ownOpen
    unfolding tracked
    by blast
qed

text \<open>
  C4 as stated fails on two inputs. In
  \<open>function go(location: Location, target: string) { location.href = target; }\<close> the
  parameter is not taken for the global object, and the assignment is reported all the
  same, since the parameter's type is \<open>Location\<close>. In
  \<open>function go(location, target) { if (target) { location.href = target; } }\<close> the
  parameter is used in a scope nested in the one that declares it; there it is taken
  for the global \<open>location\<close>, and the assignment is reported.
\<close>

theorem shadowed_binding_counterexample:
  "\<not> isGlobalIdentifier typedParameterContext (Identifier ''location'') \<and>
   reports (visitAssignmentExpression typedParameterContext initialState
      (MemberExpression (Identifier ''location'') (Identifier ''href'') False)
      (Identifier ''target'')) = [Identifier ''target''] \<and>
   definitionsInScopes (getScope shadowingContext (Identifier ''location'')) ''location'' =
     [ParameterDefinition] \<and>
   isGlobalIdentifier shadowingContext (Identifier ''location'') \<and>
   reports (visitAssignmentExpression shadowingContext initialState
      (MemberExpression (Identifier ''location'') (Identifier ''href'') False)
      (Identifier ''target'')) = [Identifier ''target'']"
  by (simp add: typedParameterContext_def functionScope_def locationType_def stringType_def
      shadowingContext_def nestedBlockScope_def anyType_def isGlobalIdentifier_def
      redirectObjectOfType_def getType_def visitAssignmentExpression_def assignToMember_def
      unwrapChainExpression_def getRedirectSinkType_def isIdentifier_def initialState_def
      reportIfUnsafe_def reportUnsafeRedirect_def isValueSafe_def isSafeLiteral_def
      safeByTypeOrCall_def isTrustedUrlType_def assignToIdentifier_def)

subsection \<open>Assignments inside \<open>with\<close>\<close>

text \<open>
  C9. Inside a \<open>with\<close> block whose header resolved to a kind \<open>k\<close>, whichever it is, the
  assignment \<open>href = x\<close> is reported, once and at \<open>x\<close>, whenever the type checker gives
  \<open>href\<close> a type that prints as \<open>string\<close> or whose printed form contains \<open>Location\<close>, and
  \<open>x\<close> is not classified safe. This needs the type: when the header's kind is not
  \<open>location\<close>, \<open>href\<close> has no type and is no tracked alias, nothing is reported.
\<close>

theorem with_href_assignment:
  "(getCurrentWithObject st = Some k \<and> getType ctx (Identifier ''href'') = Some leftType \<and>
    (display leftType = ''string'' \<or> stringIncludes (display leftType) ''Location'') \<and>
    \<not> isValueSafe ctx x
    \<longrightarrow> visitAssignmentExpression ctx st (Identifier ''href'') x = reportUnsafeRedirect st x) \<and>
   (getCurrentWithObject st = Some k \<and> k \<noteq> LocationObject \<and>
    getType ctx (Identifier ''href'') = None \<and> trackedVariables st ''href'' = None
    \<longrightarrow> visitAssignmentExpression ctx st (Identifier ''href'') x = st)"
  by (simp add: visitAssignmentExpression_def assignToMember_def unwrapChainExpression_def
      assignToIdentifier_def reportIfUnsafe_def redirectObjectOfType_def)

text \<open>
  \<open>with (window) href = someVariable;\<close> where the type checker says \<open>string\<close> for both
  identifiers, and the same statement linted without type information.
\<close>

theorem with_href_assignment_witness:
  "visitAssignmentExpression stringTypedContext
     (enterWithStatement stringTypedContext initialState (Identifier ''window''))
     (Identifier ''href'') (Identifier ''someVariable'') =
   \<lparr>trackedVariables = Map.empty, withStack = [Some WindowObject],
    reports = [Identifier ''someVariable'']\<rparr> \<and>
   visitAssignmentExpression untypedContext
     (enterWithStatement untypedContext initialState (Identifier ''window''))
     (Identifier ''href'') (Identifier ''someVariable'') =
   \<lparr>trackedVariables = Map.empty, withStack = [Some WindowObject], reports = []\<rparr>"
  using with_href_assignment [of
      "enterWithStatement stringTypedContext initialState (Identifier ''window'')" WindowObject
      stringTypedContext stringType "Identifier ''someVariable''"]
    with_href_assignment [of
      "enterWithStatement untypedContext initialState (Identifier ''window'')" WindowObject
      untypedContext stringType "Identifier ''someVariable''"]
  by (simp add: stringTypedContext_def untypedContext_def stringType_def enterWithStatement_def
      initialState_def getCurrentWithObject_def redirectObjectOfType_def getType_def
      isGlobalIdentifier_def isValueSafe_def isSafeLiteral_def safeByTypeOrCall_def
      isTrustedUrlType_def reportUnsafeRedirect_def)

subsection \<open>Assignments to a property \<open>location\<close>\<close>

lemma sinkType_never_location: "getRedirectSinkType n \<noteq> Some SinkLocation"
  by (simp add: getRedirectSinkType_def split: node.splits)

lemma sinkType_of_member:
  "getRedirectSinkType (MemberExpression object property computed) =
     (if property = Identifier ''href'' then Some SinkHref
      else if property = Identifier ''replace'' then Some SinkReplace
      else if property = Identifier ''assign'' then Some SinkAssign
      else if property = Identifier ''navigate'' then Some SinkNavigate
      else None)"
  by (cases property) (simp_all add: getRedirectSinkType_def)

lemma assign_location_property:
  "visitAssignmentExpression ctx st (MemberExpression object (Identifier ''location'') False) x =
     (if isRedirectObject ctx (trackedVariables st) object = Some WindowObject \<or>
         ((object = Identifier ''document'' \<or> object = Identifier ''globalThis'') \<and>
          isGlobalIdentifier ctx object)
      then reportIfUnsafe ctx st x
      else st)"
  by (auto simp add: visitAssignmentExpression_def assignToMember_def unwrapChainExpression_def
      assignToIdentifier_def sinkType_of_member Let_def)

text \<open>
  C10. \<open>getRedirectSinkType\<close> never answers \<open>location\<close>: on a member expression it
  answers \<open>href\<close>, \<open>replace\<close>, \<open>assign\<close> or \<open>navigate\<close> exactly when the property is the
  identifier of that name, and \<open>null\<close> otherwise. An assignment to \<open>object.location\<close> is
  recognised by the visitor itself: the value is checked (and reported when unsafe)
  exactly when the object resolves to \<open>window\<close>, or is the global identifier
  \<open>document\<close> or \<open>globalThis\<close>.
\<close>

theorem location_property_assignment:
  "getRedirectSinkType n \<noteq> Some SinkLocation \<and>
   getRedirectSinkType (MemberExpression object property computed) =
     (if property = Identifier ''href'' then Some SinkHref
      else if property = Identifier ''replace'' then Some SinkReplace
      else if property = Identifier ''assign'' then Some SinkAssign
      else if property = Identifier ''navigate'' then Some SinkNavigate
      else None) \<and>
   visitAssignmentExpression ctx st (MemberExpression object (Identifier ''location'') False) x =
     (if isRedirectObject ctx (trackedVariables st) object = Some WindowObject \<or>
         ((object = Identifier ''document'' \<or> object = Identifier ''globalThis'') \<and>
          isGlobalIdentifier ctx object)
      then reportIfUnsafe ctx st x
      else st)"
  using sinkType_never_location sinkType_of_member assign_location_property by blast

text \<open>
  \<open>window.location = someVariable\<close> and \<open>document.location = someVariable\<close> are
  reported, \<open>other.location = someVariable\<close> is not.
\<close>

theorem location_property_assignment_witness:
  "getRedirectSinkType
     (MemberExpression (Identifier ''window'') (Identifier ''location'') False) = None \<and>
   reports (visitAssignmentExpression untypedContext initialState
      (MemberExpression (Identifier ''window'') (Identifier ''location'') False)
      (Identifier ''someVariable'')) = [Identifier ''someVariable''] \<and>
   reports (visitAssignmentExpression untypedContext initialState
      (MemberExpression (Identifier ''document'') (Identifier ''location'') False)
      (Identifier ''someVariable'')) = [Identifier ''someVariable''] \<and>
   reports (visitAssignmentExpression untypedContext initialState
      (MemberExpression (Identifier ''other'') (Identifier ''location'') False)
      (Identifier ''someVariable'')) = []"
  using location_property_assignment [of n "Identifier ''window''" "Identifier ''location''"
      False untypedContext initialState "Identifier ''someVariable''"]
    location_property_assignment [of n "Identifier ''document''" "Identifier ''location''"
      False untypedContext initialState "Identifier ''someVariable''"]
    location_property_assignment [of n "Identifier ''other''" "Identifier ''location''"
      False untypedContext initialState "Identifier ''someVariable''"]
  by (simp add: untypedContext_def initialState_def redirectObjectOfType_def getType_def
      isGlobalIdentifier_def isValueSafe_def isSafeLiteral_def safeByTypeOrCall_def
      reportIfUnsafe_def reportUnsafeRedirect_def)

end
